theory Spec2Isabelle
  imports Main "HOL-Library.Sublist"
begin

section \<open>Python values and the operations the guardrail applies to them\<close>

text \<open>
  The guardrail works on decoded JSON: the body of the moderation service's reply, the
  request's \<open>data\<close> dict and the context dict of a local detector. \<open>JNull\<close> is Python's
  \<open>None\<close>. A JSON number is modelled by an integer: every operation the code applies to
  a number (truth value, subscripting, \<open>len\<close>, \<open>strip\<close>, \<open>lower\<close>, \<open>get\<close>) treats a float
  as it treats an integer. A dict is an association list read with \<open>map_of\<close>; its keys are
  strings, as in every decoded JSON object.

  Text is an Isabelle \<open>string\<close>, read as Python reads a \<open>str\<close>: a list of Unicode code
  points, not of the bytes of an encoding. A \<open>char\<close> is a code point below 256 (ASCII and
  the Latin-1 supplement), so \<open>CHR 0xA0\<close> is the no-break space U+00A0 and \<open>CHR 0xC9\<close> is
  the capital E with acute U+00C9. On these code points \<open>lower\<close>, \<open>is_space\<close> and \<open>strip\<close>
  are Python's \<open>str.lower\<close>, \<open>str.isspace\<close> and \<open>str.strip\<close>. A text with a code point from
  256 on is not a value of the model, and no theorem below speaks about it.
\<close>

datatype json =
    JNull
  | JBool bool
  | JNum int
  | JStr string
  | JList "json list"
  | JDict "(string \<times> json) list"

text \<open>
  The exceptions that reach the hooks. \<open>Timeout\<close>, \<open>ConnectionError\<close>, \<open>HTTPError\<close> and
  \<open>JSONDecodeError\<close> are those of the \<open>requests\<close> library (\<open>HTTPError\<close> comes from
  \<open>raise_for_status\<close> on a non-2xx reply); \<open>GuardrailRaisedException message name\<close> is the
  block signal of \<open>litellm.exceptions\<close>.
\<close>

datatype exn =
    KeyError
  | IndexError
  | TypeError
  | AttributeError
  | ValueError string
  | Timeout
  | ConnectionError
  | HTTPError
  | JSONDecodeError
  | GuardrailRaisedException string string

text \<open>\<open>bool(x)\<close>, as \<open>if x\<close>, \<open>not x\<close> and \<open>x or y\<close> use it.\<close>

fun truthy :: "json \<Rightarrow> bool" where
  "truthy JNull = False"
| "truthy (JBool b) = b"
| "truthy (JNum n) = (n \<noteq> 0)"
| "truthy (JStr s) = (s \<noteq> [])"
| "truthy (JList xs) = (xs \<noteq> [])"
| "truthy (JDict d) = (d \<noteq> [])"

text \<open>\<open>x[key]\<close> for a string key: only a dict can be subscripted by a string.\<close>

fun getitem_str :: "json \<Rightarrow> string \<Rightarrow> exn + json" where
  "getitem_str (JDict d) k = (case map_of d k of None \<Rightarrow> Inl KeyError | Some v \<Rightarrow> Inr v)"
| "getitem_str JNull k = Inl TypeError"
| "getitem_str (JBool b) k = Inl TypeError"
| "getitem_str (JNum n) k = Inl TypeError"
| "getitem_str (JStr s) k = Inl TypeError"
| "getitem_str (JList xs) k = Inl TypeError"

text \<open>\<open>x[0]\<close>: the first element of a list, the first character of a string; a JSON dict
  has no key \<open>0\<close>.\<close>

fun getitem_0 :: "json \<Rightarrow> exn + json" where
  "getitem_0 (JList xs) = (case xs of [] \<Rightarrow> Inl IndexError | x # _ \<Rightarrow> Inr x)"
| "getitem_0 (JStr s) = (case s of [] \<Rightarrow> Inl IndexError | c # _ \<Rightarrow> Inr (JStr [c]))"
| "getitem_0 (JDict d) = Inl KeyError"
| "getitem_0 JNull = Inl TypeError"
| "getitem_0 (JBool b) = Inl TypeError"
| "getitem_0 (JNum n) = Inl TypeError"

text \<open>\<open>key in x\<close> for a string key: a key of a dict, an element of a list, a substring of
  a string.\<close>

fun contains_str :: "string \<Rightarrow> json \<Rightarrow> exn + bool" where
  "contains_str k (JDict d) = Inr (k \<in> set (map fst d))"
| "contains_str k (JList xs) = Inr (JStr k \<in> set xs)"
| "contains_str k (JStr s) = Inr (sublist k s)"
| "contains_str k JNull = Inl TypeError"
| "contains_str k (JBool b) = Inl TypeError"
| "contains_str k (JNum n) = Inl TypeError"

text \<open>\<open>d.get(key, default)\<close>: a method of dicts only.\<close>

fun dict_get :: "json \<Rightarrow> string \<Rightarrow> json \<Rightarrow> exn + json" where
  "dict_get (JDict d) k dflt = (case map_of d k of None \<Rightarrow> Inr dflt | Some v \<Rightarrow> Inr v)"
| "dict_get JNull k dflt = Inl AttributeError"
| "dict_get (JBool b) k dflt = Inl AttributeError"
| "dict_get (JNum n) k dflt = Inl AttributeError"
| "dict_get (JStr s) k dflt = Inl AttributeError"
| "dict_get (JList xs) k dflt = Inl AttributeError"

text \<open>\<open>x[:100]\<close>: strings and lists can be sliced.\<close>

fun slice_100 :: "json \<Rightarrow> exn + json" where
  "slice_100 (JStr s) = Inr (JStr (take 100 s))"
| "slice_100 (JList xs) = Inr (JList (take 100 xs))"
| "slice_100 (JDict d) = Inl TypeError"
| "slice_100 JNull = Inl TypeError"
| "slice_100 (JBool b) = Inl TypeError"
| "slice_100 (JNum n) = Inl TypeError"

text \<open>\<open>len(x)\<close>.\<close>

fun py_len :: "json \<Rightarrow> exn + nat" where
  "py_len (JStr s) = Inr (length s)"
| "py_len (JList xs) = Inr (length xs)"
| "py_len (JDict d) = Inr (length d)"
| "py_len JNull = Inl TypeError"
| "py_len (JBool b) = Inl TypeError"
| "py_len (JNum n) = Inl TypeError"

subsection \<open>Strings\<close>

text \<open>\<open>str.lower\<close> on one code point below 256. The capital letters are A to Z (65 to 90)
  and U+00C0 to U+00DE (192 to 222) without the multiplication sign U+00D7 (215); each
  has its small letter 32 places further. Every other code point below 256 is its own
  lower case, among them the sharp s U+00DF, the micro sign U+00B5 and U+00FF.\<close>

definition lower_char :: "char \<Rightarrow> char" where
  "lower_char c =
     (let n = (of_char c :: nat) in
      if (65 \<le> n \<and> n \<le> 90) \<or> (192 \<le> n \<and> n \<le> 222 \<and> n \<noteq> 215)
      then char_of (n + 32) else c)"

definition lower :: "string \<Rightarrow> string" where
  "lower s = map lower_char s"

text \<open>The code points below 256 for which \<open>str.isspace\<close> holds: tab to carriage return
  (9 to 13), the four separators 28 to 31, the space (32), the next-line control U+0085
  (133) and the no-break space U+00A0 (160).\<close>

definition is_space :: "char \<Rightarrow> bool" where
  "is_space c =
     (let n = (of_char c :: nat) in
      (9 \<le> n \<and> n \<le> 13) \<or> (28 \<le> n \<and> n \<le> 32) \<or> n = 133 \<or> n = 160)"

definition strip :: "string \<Rightarrow> string" where
  "strip s = rev (dropWhile is_space (rev (dropWhile is_space s)))"

section \<open>The blocking decision classifier (nemo\_guardrails.py)\<close>

text \<open>The dict \<open>policy_mapping\<close> of \<open>_extract_policy_name\<close>, in insertion order, which
  is the order Python iterates it in.\<close>

definition policy_mapping :: "(string \<times> string) list" where
  "policy_mapping =
    [(''I'm sorry, I can't respond to that request. I'm designed to follow specific guidelines and I cannot ignore or change my instructions.'', ''Jailbreak Prevention''),
     (''I'm sorry, I cannot assist with that request. It goes against my guidelines to provide information that could be harmful or illegal.'', ''Harmful Content Prevention''),
     (''I apologize, but I cannot provide that response as it violates content safety policies.'', ''Content Safety Policy''),
     (''I can't help with requests for personal or sensitive information such as social security numbers, passport numbers, bank or credit card details.'', ''PII Protection''),
     (''I can't assist with attempts to bypass safety or moderation rules. Please ask a different question.'', ''Safety Bypass Prevention''),
     (''I can't assist with explicit sexual content, pornography, or any sexual content involving minors or illegal situations.'', ''Sexual Content Prevention''),
     (''I'm sorry you're feeling this way. If you're in immediate danger, please contact your local emergency services.'', ''Self-Harm Prevention''),
     (''I cannot provide information about causing harm to others. Is there something else I can help you with?'', ''Violence Prevention''),
     (''I cannot assist with illegal activities. I'm here to help with legitimate and legal inquiries.'', ''Illegal Activity Prevention''),
     (''I'm designed to follow safety guidelines and cannot bypass my instructions. How else can I assist you?'', ''Instruction Bypass Prevention''),
     (''Please don't share sensitive personal information like passwords, credit cards, or social security numbers.'', ''Sensitive Information Protection''),
     (''I'm here to have respectful conversations. Let's keep things constructive.'', ''Toxicity Prevention''),
     (''I cannot create malicious code or security exploits. I can help with legitimate programming questions instead.'', ''Malicious Code Prevention''),
     (''I understand you may be frustrated. How can I help you in a constructive way?'', ''Respectful Interaction Policy''),
     (''I'm not able to provide medical diagnoses or treatment advice. Please consult a medical professional.'', ''Medical Advice Policy prevention''),
     (''I can't provide legal advice or instructions. Please consult a qualified legal professional.'', ''Legal Advice Policy Prevention'')]"

definition legacy_phrases :: "string list" where
  "legacy_phrases =
    [''I'm sorry, I can't respond to that'',
     ''I cannot assist with that'',
     ''against my guidelines'',
     ''inappropriate'']"

text \<open>The list \<open>blocking_phrases\<close> of \<open>_is_message_blocked\<close>.\<close>

definition blocking_phrases :: "string list" where
  "blocking_phrases =
    [''I'm sorry, I can't respond to that request. I'm designed to follow specific guidelines and I cannot ignore or change my instructions.'',
     ''I'm sorry, I cannot assist with that request. It goes against my guidelines to provide information that could be harmful or illegal.'',
     ''I apologize, but I cannot provide that response as it violates content safety policies.'',
     ''I can't help with requests for personal or sensitive information such as social security numbers, passport numbers, bank or credit card details.'',
     ''I can't assist with attempts to bypass safety or moderation rules. Please ask a different question.'',
     ''I can't assist with explicit sexual content, pornography, or any sexual content involving minors or illegal situations.'',
     ''I'm sorry you're feeling this way. If you're in immediate danger, please contact your local emergency services. If you need someone to talk to, consider reaching out to a crisis hotline or a trusted person in your life.'',
     ''I'm sorry, I can't respond to that'',
     ''I cannot assist with that'',
     ''against my guidelines'',
     ''inappropriate'',
     ''I cannot provide information about causing harm to others. Is there something else I can help you with?'',
     ''I cannot assist with illegal activities. I'm here to help with legitimate and legal inquiries.'',
     ''I'm designed to follow safety guidelines and cannot bypass my instructions. How else can I assist you?'',
     ''Please don't share sensitive personal information like passwords, credit cards, or social security numbers. How else can I help?'',
     ''I'm here to have respectful conversations. Let's keep things constructive. What can I help you with?'',
     ''I cannot create malicious code or security exploits. I can help with legitimate programming questions instead.'',
     ''I understand you may be frustrated. How can I help you in a constructive way?'',
     ''I'm sorry, I can't respond to that.'',
     ''I'm not able to provide medical diagnoses or treatment advice. Please consult a medical professional.'',
     ''I can't provide legal advice or instructions. Please consult a qualified legal professional.'']"

text \<open>\<open>phrase.lower() in response_lower\<close>, the test of both scans.\<close>

definition phrase_in :: "string \<Rightarrow> string \<Rightarrow> bool" where
  "phrase_in phrase response_text = sublist (lower phrase) (lower response_text)"

text \<open>The body of \<open>if "metadata" in api_response:\<close>. \<open>Some v\<close> is \<open>return v\<close>, \<open>None\<close> is
  falling through to the phrase tables.\<close>

definition metadata_policy :: "json \<Rightarrow> exn + json option" where
  "metadata_policy api_response =
     (case getitem_str api_response ''metadata'' of
        Inl e \<Rightarrow> Inl e
      | Inr metadata \<Rightarrow>
          (case contains_str ''violated_policy'' metadata of
             Inl e \<Rightarrow> Inl e
           | Inr True \<Rightarrow>
               (case getitem_str metadata ''violated_policy'' of
                  Inl e \<Rightarrow> Inl e
                | Inr v \<Rightarrow> Inr (Some v))
           | Inr False \<Rightarrow>
               (case contains_str ''policy_name'' metadata of
                  Inl e \<Rightarrow> Inl e
                | Inr True \<Rightarrow>
                    (case getitem_str metadata ''policy_name'' of
                       Inl e \<Rightarrow> Inl e
                     | Inr v \<Rightarrow> Inr (Some v))
                | Inr False \<Rightarrow> Inr None)))"

text \<open>The two loops over \<open>policy_mapping\<close> and \<open>legacy_phrases\<close>, and the final
  \<open>return "Unknown Policy"\<close>.\<close>

definition policy_of_text :: "string \<Rightarrow> string" where
  "policy_of_text response_text =
     (case find (\<lambda>(phrase, policy_name). phrase_in phrase response_text) policy_mapping of
        Some (phrase, policy_name) \<Rightarrow> policy_name
      | None \<Rightarrow>
          if list_ex (\<lambda>phrase. phrase_in phrase response_text) legacy_phrases
          then ''Content Policy Violation''
          else ''Unknown Policy'')"

definition extract_policy_name :: "json \<Rightarrow> string \<Rightarrow> exn + json" where
  "extract_policy_name api_response response_text =
     (case contains_str ''metadata'' api_response of
        Inl e \<Rightarrow> Inl e
      | Inr True \<Rightarrow>
          (case metadata_policy api_response of
             Inl e \<Rightarrow> Inl e
           | Inr (Some v) \<Rightarrow> Inr v
           | Inr None \<Rightarrow> Inr (JStr (policy_of_text response_text)))
      | Inr False \<Rightarrow> Inr (JStr (policy_of_text response_text)))"

text \<open>\<open>api_response["messages"][0]["content"]\<close>, evaluated once for the log line that
  opens \<open>_is_message_blocked\<close> and once more for \<open>response_text\<close>.\<close>

definition response_content :: "json \<Rightarrow> exn + json" where
  "response_content api_response =
     (case getitem_str api_response ''messages'' of
        Inl e \<Rightarrow> Inl e
      | Inr messages \<Rightarrow>
          (case getitem_0 messages of
             Inl e \<Rightarrow> Inl e
           | Inr message \<Rightarrow> getitem_str message ''content''))"

text \<open>The first phrase of \<open>blocking_phrases\<close> the text contains, if any: the loop
  \<open>for phrase in blocking_phrases\<close>.\<close>

definition first_blocking_phrase :: "string \<Rightarrow> string option" where
  "first_blocking_phrase response_text =
     find (\<lambda>phrase. phrase_in phrase response_text) blocking_phrases"

text \<open>\<open>_is_message_blocked\<close> returns \<open>(is_blocked, reason, policy_name)\<close>. The first
  \<open>case\<close> is the call \<open>verbose_proxy_logger.warning(api_response["messages"][0]["content"])\<close>,
  which evaluates its argument before anything else is checked.\<close>

definition is_message_blocked :: "json \<Rightarrow> exn + (bool \<times> string option \<times> json)" where
  "is_message_blocked api_response =
     (case response_content api_response of
        Inl e \<Rightarrow> Inl e
      | Inr logged \<Rightarrow>
          if \<not> truthy api_response
          then Inr (True, Some ''Empty response from guardrails API'', JNull)
          else
            (case response_content api_response of
               Inl e \<Rightarrow> Inl e
             | Inr response_text \<Rightarrow>
                 if \<not> truthy response_text
                 then Inr (True, Some ''Empty response from guardrails'', JNull)
                 else
                   (case response_text of
                      JStr t \<Rightarrow>
                        if strip t = []
                        then Inr (True, Some ''Empty response from guardrails'', JNull)
                        else
                          (case first_blocking_phrase t of
                             None \<Rightarrow> Inr (False, None, JNull)
                           | Some phrase \<Rightarrow>
                               (case extract_policy_name api_response t of
                                  Inl e \<Rightarrow> Inl e
                                | Inr policy_name \<Rightarrow>
                                    Inr (True, Some (''Blocking phrase detected: '' @ phrase),
                                         policy_name)))
                    | JNull \<Rightarrow> Inl AttributeError
                    | JBool b \<Rightarrow> Inl AttributeError
                    | JNum n \<Rightarrow> Inl AttributeError
                    | JList xs \<Rightarrow> Inl AttributeError
                    | JDict d \<Rightarrow> Inl AttributeError)))"

section \<open>The world around the guardrail\<close>

text \<open>
  What the hooks consume from their collaborators, for one invocation:
  the host's gating decisions, the outcome of the two HTTP requests (\<open>requests.get\<close> or
  \<open>requests.post\<close>, followed by \<open>raise_for_status\<close> and \<open>json()\<close>: the decoded body, or
  the exception raised on the way), and Python's \<open>str\<close> on a value that is not a string
  and on an exception, which the f-strings of the hooks apply.
\<close>

datatype event_type = pre_call | post_call

record env =
  should_run_guardrail :: "event_type \<Rightarrow> bool"
  should_proceed_based_on_metadata :: bool
  get_configs :: "exn + json"
  post_chat_completions :: "json \<Rightarrow> json \<Rightarrow> exn + json"
  str_of_json :: "json \<Rightarrow> string"
  str_of_exn :: "exn \<Rightarrow> string"

text \<open>The HTTP requests a call issues, in order.\<close>

datatype http_call = GetConfigs | PostChatCompletions json json

text \<open>
  \<open>log_data\<close> of \<open>_log_guardrail_result\<close>, as handed to
  \<open>add_standard_logging_guardrail_information_to_request_data\<close>. The keys
  \<open>violated_policy\<close> and \<open>policy_name\<close> hold the same value and are one field; the
  duration is a difference of wall-clock times and is left out.
\<close>

record log_data =
  log_guardrail_name :: string
  status :: string
  reason :: string
  violated_policy :: "json option"
  user_message_preview :: "json option"
  llm_response_preview :: "json option"

text \<open>
  The guardrail instance (\<open>guardrail_name\<close>, \<open>_config_id\<close>, \<open>_configs_cache\<close>) together
  with the effects of a call: the HTTP requests issued, the results logged into the
  request data, and the names added to the applied-guardrails header.
\<close>

record state =
  guardrail_name :: string
  config_id :: json
  configs_cache :: json
  http_calls :: "http_call list"
  logged :: "log_data list"
  applied_guardrails :: "string list"

text \<open>The response of the model, as far as the post-call hook reads it. \<open>None\<close> for an
  attribute is \<open>hasattr\<close> being false.\<close>

record llm_message =
  content :: "json option"

record choice =
  message :: "llm_message option"


section \<open>Configuration resolver and classification client\<close>

text \<open>The \<open>try\<close> block of \<open>_get_config_id\<close>: the fetch, the assignment to the cache, and
  the log line that takes \<open>len\<close> of what was fetched. Every exception is logged and
  raised again.\<close>

definition fetch_configs :: "env \<Rightarrow> state \<Rightarrow> (exn + unit) \<times> state" where
  "fetch_configs e s =
     (let s1 = s\<lparr>http_calls := http_calls s @ [GetConfigs]\<rparr> in
      case get_configs e of
        Inl ex \<Rightarrow> (Inl ex, s1)
      | Inr body \<Rightarrow>
          (let s2 = s1\<lparr>configs_cache := body\<rparr> in
           case py_len body of
             Inl ex \<Rightarrow> (Inl ex, s2)
           | Inr n \<Rightarrow> (Inr (), s2)))"

text \<open>The rest of \<open>_get_config_id\<close>, on the cache as it stands.\<close>

definition first_config_id :: "json \<Rightarrow> exn + json" where
  "first_config_id cache =
     (if \<not> truthy cache
      then Inl (ValueError ''No NeMo Guardrails configurations available'')
      else
        (case py_len cache of
           Inl ex \<Rightarrow> Inl ex
         | Inr n \<Rightarrow>
             if n = 0
             then Inl (ValueError ''No NeMo Guardrails configurations available'')
             else
               (case getitem_0 cache of
                  Inl ex \<Rightarrow> Inl ex
                | Inr first \<Rightarrow>
                    (case dict_get first ''id'' JNull of
                       Inl ex \<Rightarrow> Inl ex
                     | Inr cid \<Rightarrow>
                         if \<not> truthy cid
                         then Inl (ValueError ''Config ID not found in response'')
                         else Inr cid))))"

definition get_config_id :: "env \<Rightarrow> state \<Rightarrow> (exn + json) \<times> state" where
  "get_config_id e s =
     (if truthy (config_id s) then (Inr (config_id s), s)
      else
        (case (if configs_cache s = JNull then fetch_configs e s else (Inr (), s)) of
           (Inl ex, s1) \<Rightarrow> (Inl ex, s1)
         | (Inr u, s1) \<Rightarrow> (first_config_id (configs_cache s1), s1)))"

text \<open>\<open>_check_message_with_api\<close>: both \<open>except\<close> clauses log and raise again.\<close>

definition check_message_with_api :: "env \<Rightarrow> json \<Rightarrow> state \<Rightarrow> (exn + json) \<times> state" where
  "check_message_with_api e messages s =
     (case get_config_id e s of
        (Inl ex, s1) \<Rightarrow> (Inl ex, s1)
      | (Inr cid, s1) \<Rightarrow>
          (post_chat_completions e cid messages,
           s1\<lparr>http_calls := http_calls s1 @ [PostChatCompletions cid messages]\<rparr>))"

section \<open>Hook pipeline\<close>

text \<open>\<open>x[:100]\<close> under \<open>if x:\<close>, for the two previews of the log.\<close>

definition preview :: "json \<Rightarrow> exn + json option" where
  "preview x =
     (if truthy x
      then (case slice_100 x of Inl ex \<Rightarrow> Inl ex | Inr v \<Rightarrow> Inr (Some v))
      else Inr None)"

text \<open>\<open>_log_guardrail_result(status, reason, user_message, llm_response, policy_name)\<close>;
  an argument left at its default is \<open>JNull\<close>.\<close>

definition log_guardrail_result ::
  "state \<Rightarrow> string \<Rightarrow> string \<Rightarrow> json \<Rightarrow> json \<Rightarrow> json \<Rightarrow> exn + state" where
  "log_guardrail_result s st rs user_message llm_response policy_name =
     (case preview user_message of
        Inl ex \<Rightarrow> Inl ex
      | Inr up \<Rightarrow>
          (case preview llm_response of
             Inl ex \<Rightarrow> Inl ex
           | Inr lp \<Rightarrow>
               Inr (s\<lparr>logged := logged s @
                 [\<lparr>log_guardrail_name = guardrail_name s, status = st, reason = rs,
                   violated_policy = (if truthy policy_name then Some policy_name else None),
                   user_message_preview = up, llm_response_preview = lp\<rparr>]\<rparr>)))"

text \<open>\<open>str(type(e))\<close>, which the pre-call hook searches for the name of the block
  signal.\<close>

fun type_str :: "exn \<Rightarrow> string" where
  "type_str KeyError = ''<class 'KeyError'>''"
| "type_str IndexError = ''<class 'IndexError'>''"
| "type_str TypeError = ''<class 'TypeError'>''"
| "type_str AttributeError = ''<class 'AttributeError'>''"
| "type_str (ValueError m) = ''<class 'ValueError'>''"
| "type_str Timeout = ''<class 'requests.exceptions.Timeout'>''"
| "type_str ConnectionError = ''<class 'requests.exceptions.ConnectionError'>''"
| "type_str HTTPError = ''<class 'requests.exceptions.HTTPError'>''"
| "type_str JSONDecodeError = ''<class 'requests.exceptions.JSONDecodeError'>''"
| "type_str (GuardrailRaisedException m g) = ''<class 'litellm.exceptions.GuardrailRaisedException'>''"

text \<open>A value inside an f-string: a string stands for itself.\<close>

definition format_value :: "env \<Rightarrow> json \<Rightarrow> string" where
  "format_value e v = (case v of JStr s \<Rightarrow> s | _ \<Rightarrow> str_of_json e v)"

text \<open>\<open>reason\<close> inside an f-string: the second component of the decision, a string or
  \<open>None\<close>.\<close>

definition format_reason :: "string option \<Rightarrow> string" where
  "format_reason r = (case r of None \<Rightarrow> ''None'' | Some t \<Rightarrow> t)"

text \<open>\<open>policy_name or 'Content Safety'\<close>.\<close>

definition policy_or_default :: "json \<Rightarrow> json" where
  "policy_or_default policy_name =
     (if truthy policy_name then policy_name else JStr ''Content Safety'')"

text \<open>The loop \<open>for msg in reversed(messages)\<close> on the reversed list: the content of the
  first message whose role is \<open>user\<close>, \<open>None\<close> when there is none.\<close>

fun scan_user_message :: "json list \<Rightarrow> exn + json" where
  "scan_user_message [] = Inr JNull"
| "scan_user_message (msg # rest) =
     (case dict_get msg ''role'' JNull of
        Inl ex \<Rightarrow> Inl ex
      | Inr role \<Rightarrow>
          if role = JStr ''user'' then dict_get msg ''content'' (JStr [])
          else scan_user_message rest)"

text \<open>\<open>reversed\<close> takes a list, a string (whose characters have no \<open>get\<close>) or a dict
  (whose keys have none either); truthy \<open>messages\<close> is not empty.\<close>

fun last_user_message :: "json \<Rightarrow> exn + json" where
  "last_user_message (JList msgs) = scan_user_message (rev msgs)"
| "last_user_message (JStr s) = Inl AttributeError"
| "last_user_message (JDict d) = Inl AttributeError"
| "last_user_message JNull = Inl TypeError"
| "last_user_message (JBool b) = Inl TypeError"
| "last_user_message (JNum n) = Inl TypeError"

text \<open>The \<open>try\<close> block of \<open>async_pre_call_hook\<close>. \<open>Inr ()\<close> is \<open>return None\<close>.\<close>

definition pre_call_try :: "env \<Rightarrow> (string \<times> json) list \<Rightarrow> state \<Rightarrow> (exn + unit) \<times> state" where
  "pre_call_try e data s =
     (let messages = (case map_of data ''messages'' of None \<Rightarrow> JList [] | Some v \<Rightarrow> v) in
      if \<not> truthy messages then (Inr (), s)
      else
        (case last_user_message messages of
           Inl ex \<Rightarrow> (Inl ex, s)
         | Inr user_message \<Rightarrow>
             if \<not> truthy user_message then (Inr (), s)
             else
               (case slice_100 user_message of
                  Inl ex \<Rightarrow> (Inl ex, s)
                | Inr shown \<Rightarrow>
                    (case check_message_with_api e
                            (JList [JDict [(''role'', JStr ''user''), (''content'', user_message)]]) s of
                       (Inl ex, s1) \<Rightarrow> (Inl ex, s1)
                     | (Inr api_response, s1) \<Rightarrow>
                         (case is_message_blocked api_response of
                            Inl ex \<Rightarrow> (Inl ex, s1)
                          | Inr (is_blocked, rs, policy_name) \<Rightarrow>
                              if is_blocked
                              then
                                (case log_guardrail_result s1 ''blocked''
                                        (''Message blocked by NeMo Guardrails: '' @ format_reason rs)
                                        user_message JNull policy_name of
                                   Inl ex \<Rightarrow> (Inl ex, s1)
                                 | Inr s2 \<Rightarrow>
                                     (Inl (GuardrailRaisedException
                                        (''Your message was blocked by content safety policies. Policy violated: ''
                                           @ format_value e (policy_or_default policy_name))
                                        (guardrail_name s2)), s2))
                              else
                                (case log_guardrail_result s1 ''passed''
                                        ''Message passed NeMo Guardrails checks''
                                        user_message JNull JNull of
                                   Inl ex \<Rightarrow> (Inl ex, s1)
                                 | Inr s2 \<Rightarrow>
                                     (Inr (), s2\<lparr>applied_guardrails :=
                                        applied_guardrails s2 @ [guardrail_name s2]\<rparr>)))))))"

text \<open>\<open>async_pre_call_hook\<close>: the two gates, the \<open>try\<close> block and its \<open>except\<close> clause.\<close>

definition async_pre_call_hook ::
  "env \<Rightarrow> (string \<times> json) list \<Rightarrow> state \<Rightarrow> (exn + unit) \<times> state" where
  "async_pre_call_hook e data s =
     (if \<not> should_run_guardrail e pre_call then (Inr (), s)
      else if \<not> should_proceed_based_on_metadata e then (Inr (), s)
      else
        (case pre_call_try e data s of
           (Inr r, s1) \<Rightarrow> (Inr r, s1)
         | (Inl ex, s1) \<Rightarrow>
             if sublist ''GuardrailRaisedException'' (type_str ex) then (Inl ex, s1)
             else
               (case log_guardrail_result s1 ''error'' (''Error: '' @ str_of_exn e ex)
                       JNull JNull JNull of
                  Inl ex' \<Rightarrow> (Inl ex', s1)
                | Inr s2 \<Rightarrow> (Inr (), s2))))"






section \<open>Local detectors (nemo\_config/actions.py)\<close>

text \<open>
  The regular expressions of \<open>violates_policy\<close> are sequences of three kinds of items:
  a literal text, a group of alternative literal texts \<open>(a|b|c)\<close>, and \<open>\d+\<close>.
  \<open>match_here p s\<close> holds when the pattern matches a prefix of \<open>s\<close>; \<open>re_search\<close> tries
  every position, as \<open>re.search\<close> does. Matching is case-sensitive: the source passes no
  flag.
\<close>

datatype rx = Lit string | Alt "string list" | Digits

definition is_digit :: "char \<Rightarrow> bool" where
  "is_digit c = (let n = (of_char c :: nat) in 48 \<le> n \<and> n \<le> 57)"

fun match_here :: "rx list \<Rightarrow> string \<Rightarrow> bool" where
  "match_here [] s = True"
| "match_here (Lit l # rs) s = (prefix l s \<and> match_here rs (drop (length l) s))"
| "match_here (Alt alts # rs) s =
     list_ex (\<lambda>a. prefix a s \<and> match_here rs (drop (length a) s)) alts"
| "match_here (Digits # rs) s =
     list_ex (\<lambda>n. match_here rs (drop n s)) [1..<Suc (length (takeWhile is_digit s))]"

fun re_search :: "rx list \<Rightarrow> string \<Rightarrow> bool" where
  "re_search p [] = match_here p []"
| "re_search p (c # cs) = (match_here p (c # cs) \<or> re_search p cs)"

text \<open>The list \<open>violations\<close> of \<open>violates_policy\<close>.\<close>

definition violations :: "rx list list" where
  "violations =
    [[Lit ''I can help you '', Alt [''hack'', ''steal'', ''break into'']],
     [Lit ''Here's how to '', Alt [''hurt'', ''harm'', ''attack'']],
     [Lit ''To bypass security''],
     [Lit ''Step '', Digits, Lit '': '', Alt [''hack'', ''exploit'', ''steal'']]]"

text \<open>\<open>context.get("bot_message", "")\<close>, replaced by
  \<open>context.get("last_bot_message", "")\<close> when it is falsy.\<close>

definition bot_message_of :: "(string \<times> json) list \<Rightarrow> json" where
  "bot_message_of context =
     (let bot_message = (case map_of context ''bot_message'' of None \<Rightarrow> JStr [] | Some v \<Rightarrow> v) in
      if \<not> truthy bot_message
      then (case map_of context ''last_bot_message'' of None \<Rightarrow> JStr [] | Some v \<Rightarrow> v)
      else bot_message)"

text \<open>The context is \<open>None\<close> or a dict; a truthy message that is not a string has no
  \<open>lower\<close>.\<close>

definition violates_policy :: "(string \<times> json) list option \<Rightarrow> exn + bool" where
  "violates_policy context =
     (case context of
        None \<Rightarrow> Inr False
      | Some ctx \<Rightarrow>
          if ctx = [] then Inr False
          else
            (let bot_message = bot_message_of ctx in
             if \<not> truthy bot_message then Inr False
             else
               (case bot_message of
                  JStr m \<Rightarrow> Inr (list_ex (\<lambda>pattern. re_search pattern (lower m)) violations)
                | JNull \<Rightarrow> Inl AttributeError
                | JBool b \<Rightarrow> Inl AttributeError
                | JNum n \<Rightarrow> Inl AttributeError
                | JList xs \<Rightarrow> Inl AttributeError
                | JDict d \<Rightarrow> Inl AttributeError)))"

definition harmful_keywords :: "string list" where
  "harmful_keywords =
    [''violence'', ''violent'', ''attack'', ''hurt'', ''harm'', ''kill'', ''murder'',
     ''suicide'', ''self-harm'', ''cutting'',
     ''illegal'', ''crime'', ''criminal'',
     ''hack'', ''exploit'', ''malware'', ''virus'',
     ''drug'', ''cocaine'', ''heroin'', ''meth'',
     ''weapon'', ''bomb'', ''explosive'',
     ''discriminate'', ''racist'', ''sexist'']"

definition instruction_patterns :: "string \<Rightarrow> string list" where
  "instruction_patterns keyword =
    [''how to '' @ keyword,
     ''ways to '' @ keyword,
     ''steps to '' @ keyword,
     ''to '' @ keyword @ '' someone'',
     keyword @ '' by'']"

text \<open>The nested loops of \<open>is_harmful_content\<close> on the lowered message: some keyword
  occurs, and so does one of its instruction patterns.\<close>

definition harmful_in :: "string \<Rightarrow> bool" where
  "harmful_in message_lower =
     list_ex (\<lambda>keyword. sublist keyword message_lower \<and>
        list_ex (\<lambda>pattern. sublist pattern message_lower) (instruction_patterns keyword))
       harmful_keywords"

definition is_harmful_content :: "(string \<times> json) list option \<Rightarrow> exn + bool" where
  "is_harmful_content context =
     (case context of
        None \<Rightarrow> Inr False
      | Some ctx \<Rightarrow>
          if ctx = [] then Inr False
          else
            (let bot_message = bot_message_of ctx in
             if \<not> truthy bot_message then Inr False
             else
               (case bot_message of
                  JStr m \<Rightarrow> Inr (harmful_in (lower m))
                | JNull \<Rightarrow> Inl AttributeError
                | JBool b \<Rightarrow> Inl AttributeError
                | JNum n \<Rightarrow> Inl AttributeError
                | JList xs \<Rightarrow> Inl AttributeError
                | JDict d \<Rightarrow> Inl AttributeError)))"

section \<open>Lowered phrase tables\<close>

text \<open>
  The phrase tables with every phrase lowered once, and the two scans on an already
  lowered text. They compute what \<open>first_blocking_phrase\<close> and \<open>policy_of_text\<close> compute
  (\<open>first_blocking_phrase_lowered\<close>, \<open>policy_of_text_lowered\<close> below) and are used to
  evaluate them on concrete texts.
\<close>

definition blocking_phrases_lower :: "(string \<times> string) list" where
  "blocking_phrases_lower = map (\<lambda>phrase. (lower phrase, phrase)) blocking_phrases"

definition policy_mapping_lower :: "(string \<times> string) list" where
  "policy_mapping_lower = map (\<lambda>(phrase, policy_name). (lower phrase, policy_name)) policy_mapping"

definition legacy_phrases_lower :: "string list" where
  "legacy_phrases_lower = map lower legacy_phrases"

definition first_blocking_lowered :: "string \<Rightarrow> string option" where
  "first_blocking_lowered l =
     map_option snd (find (\<lambda>(lp, phrase). sublist lp l) blocking_phrases_lower)"

definition policy_of_lowered :: "string \<Rightarrow> string" where
  "policy_of_lowered l =
     (case find (\<lambda>(lp, policy_name). sublist lp l) policy_mapping_lower of
        Some (lp, policy_name) \<Rightarrow> policy_name
      | None \<Rightarrow>
          if list_ex (\<lambda>lp. sublist lp l) legacy_phrases_lower
          then ''Content Policy Violation''
          else ''Unknown Policy'')"

section \<open>Example invocations\<close>

text \<open>A fresh guardrail with no configured policy set, a moderation service holding one
  configuration, and a host that lets the guardrail run; the outcomes of the two HTTP
  requests are the arguments.\<close>

definition example_state :: state where
  "example_state =
     \<lparr>guardrail_name = ''nemo_guardrails'', config_id = JNull, configs_cache = JNull,
      http_calls = [], logged = [], applied_guardrails = []\<rparr>"

definition example_configs :: json where
  "example_configs = JList [JDict [(''id'', JStr ''default'')]]"

definition example_env :: "exn + json \<Rightarrow> exn + json \<Rightarrow> env" where
  "example_env configs reply =
     \<lparr>should_run_guardrail = (\<lambda>event. True), should_proceed_based_on_metadata = True,
      get_configs = configs, post_chat_completions = (\<lambda>cid messages. reply),
      str_of_json = (\<lambda>v. ''<value>''), str_of_exn = (\<lambda>ex. ''<exception>'')\<rparr>"

section \<open>Evaluating \<open>lower\<close> and the phrase scans\<close>

text \<open>\<open>lower_char\<close> on the bits of a character: the capital letters are the codes
  \<open>010xxxxx\<close> with \<open>xxxxx\<close> from 1 to 26 and the codes \<open>110xxxxx\<close> with \<open>xxxxx\<close> other than
  23 and 31, and lowering sets the bit of value 32.\<close>

lemma lower_char_Char:
  "lower_char (Char b0 b1 b2 b3 b4 b5 b6 b7) =
     (if b6 \<and> \<not> b5 \<and>
         ((\<not> b7 \<and> (b0 \<or> b1 \<or> b2 \<or> b3 \<or> b4) \<and> \<not> (b4 \<and> b3 \<and> (b2 \<or> (b1 \<and> b0)))) \<or>
          (b7 \<and> \<not> (b0 \<and> b1 \<and> b2 \<and> b4)))
      then Char b0 b1 b2 b3 b4 True b6 b7
      else Char b0 b1 b2 b3 b4 b5 b6 b7)"
  by (cases b0; cases b1; cases b2; cases b3; cases b4; cases b5; cases b6; cases b7;
      simp add: lower_char_def char_of_def bit_Suc_0_iff)

lemmas lower_eval = lower_def list.map lower_char_Char simp_thms if_True if_False prod.case

lemmas blocking_phrases_lower_eval =
  blocking_phrases_lower_def [unfolded blocking_phrases_def, simplified lower_eval]

lemmas policy_mapping_lower_eval =
  policy_mapping_lower_def [unfolded policy_mapping_def, simplified lower_eval]

lemmas legacy_phrases_lower_eval =
  legacy_phrases_lower_def [unfolded legacy_phrases_def, simplified lower_eval]

lemma find_lowered_snd:
  "map_option snd (find (\<lambda>(lp, x). P lp) (map (\<lambda>x. (f x, x)) xs)) = find (\<lambda>x. P (f x)) xs"
  by (induction xs) auto

lemma find_lowered_pair:
  "map_option snd (find (\<lambda>(lp, n). P lp) (map (\<lambda>(p, n). (f p, n)) xs)) =
   map_option snd (find (\<lambda>(p, n). P (f p)) xs)"
  by (induction xs) auto

lemma first_blocking_phrase_lowered:
  "first_blocking_phrase t = first_blocking_lowered (lower t)"
  by (simp add: first_blocking_phrase_def first_blocking_lowered_def blocking_phrases_lower_def
      phrase_in_def find_lowered_snd)

lemma policy_of_text_lowered: "policy_of_text t = policy_of_lowered (lower t)"
proof -
  have "map_option snd (find (\<lambda>(lp, n). sublist lp (lower t)) policy_mapping_lower) =
        map_option snd (find (\<lambda>(p, n). phrase_in p t) policy_mapping)"
    unfolding policy_mapping_lower_def phrase_in_def by (rule find_lowered_pair)
  moreover have "list_ex (\<lambda>lp. sublist lp (lower t)) legacy_phrases_lower =
        list_ex (\<lambda>p. phrase_in p t) legacy_phrases"
    by (simp add: legacy_phrases_lower_def phrase_in_def list_ex_iff)
  ultimately show ?thesis
    by (auto simp: policy_of_text_def policy_of_lowered_def split: option.splits)
qed

lemma prefix_Cons_if: "prefix (x # xs) (y # ys) = (if x = y then prefix xs ys else False)"
  by simp

lemma sublist_Cons_if:
  "sublist (x # xs) (y # ys) = (if prefix (x # xs) (y # ys) then True else sublist (x # xs) ys)"
  by (auto simp: sublist_Cons_right)

lemma list_ex_Cons_if: "list_ex P (x # xs) = (if P x then True else list_ex P xs)"
  by simp

lemmas sublist_eval =
  sublist_code(1,2) sublist_Cons_if prefix_code(1,2) prefix_Cons_if char.inject simp_thms
  if_True if_False

lemmas scan_eval =
  first_blocking_lowered_def policy_of_lowered_def
  blocking_phrases_lower_eval policy_mapping_lower_eval legacy_phrases_lower_eval
  sublist_eval find.simps list_ex_Nil_iff list_ex_Cons_if
  option.case prod.case option.map snd_conv fst_conv
  list.inject option.inject list.distinct option.distinct

lemma first_blocking_bypass:
  "first_blocking_phrase ''I can't assist with attempts to bypass safety or moderation rules. Please ask a different question.'' =
     Some ''I can't assist with attempts to bypass safety or moderation rules. Please ask a different question.''"
  by (simp only: first_blocking_phrase_lowered lower_eval scan_eval cong: if_weak_cong)

lemma first_blocking_respectful:
  "first_blocking_phrase ''I'm here to have respectful conversations. Let's keep things constructive.'' = None"
  by (simp only: first_blocking_phrase_lowered lower_eval scan_eval cong: if_weak_cong)

lemma first_blocking_hello:
  "first_blocking_phrase ''Hello! How can I help you today?'' = None"
  by (simp only: first_blocking_phrase_lowered lower_eval scan_eval cong: if_weak_cong)



text \<open>Every phrase of \<open>policy_mapping\<close> is attributed to its own policy: no earlier phrase
  of the table occurs in it.\<close>

lemma policy_of_text_keys: "list_all (\<lambda>(p, n). policy_of_text p = n) policy_mapping"
  by (simp only: policy_mapping_def list.pred_inject policy_of_text_lowered lower_eval scan_eval cong: if_weak_cong)

lemma policy_of_text_key: "(p, n) \<in> set policy_mapping \<Longrightarrow> policy_of_text p = n"
  using policy_of_text_keys by (auto simp: list_all_iff)

section \<open>The classifier\<close>

subsection \<open>Extraction and fail-fast\<close>

lemma response_content_shape:
  "map_of d ''messages'' = Some (JList (JDict m # rest)) \<Longrightarrow> map_of m ''content'' = Some v \<Longrightarrow>
   response_content (JDict d) = Inr v"
  by (simp add: response_content_def)

lemma response_content_lacking:
  assumes "\<not> (\<exists>m rest c. map_of d ''messages'' = Some (JList (JDict m # rest)) \<and> map_of m ''content'' = Some c)"
  shows "\<exists>ex. response_content (JDict d) = Inl ex"
proof (cases "map_of d ''messages''")
  case None
  then show ?thesis by (simp add: response_content_def)
next
  case (Some ms)
  show ?thesis
  proof (cases ms)
    case (JList xs)
    show ?thesis
    proof (cases xs)
      case Nil
      with Some JList show ?thesis by (simp add: response_content_def)
    next
      case (Cons x rest)
      show ?thesis
      proof (cases x)
        case (JDict m)
        with assms Some JList Cons have "map_of m ''content'' = None"
          by (cases "map_of m ''content''") auto
        with Some JList Cons JDict show ?thesis by (simp add: response_content_def)
      qed (use Some JList Cons in \<open>simp_all add: response_content_def\<close>)
    qed
  next
    case (JStr s)
    with Some show ?thesis by (cases s) (simp_all add: response_content_def)
  qed (use Some in \<open>simp_all add: response_content_def\<close>)
qed

text \<open>
  C3. The claim: for an empty or absent response (\<open>None\<close>, \<open>{}\<close>) the classifier returns
  blocked with the reason "empty response" and no policy name. The code does not: the log
  line that opens \<open>_is_message_blocked\<close> subscripts the response before the emptiness
  check, so \<open>{}\<close> raises \<open>KeyError\<close> and \<open>None\<close> raises \<open>TypeError\<close>, and the
  \<open>return True, "Empty response from guardrails API", None\<close> behind it is never reached.
\<close>

theorem is_message_blocked_empty_raises:
  "is_message_blocked (JDict []) = Inl KeyError \<and> is_message_blocked JNull = Inl TypeError"
  by (simp add: is_message_blocked_def response_content_def)

text \<open>
  C4. A response dict that is not empty and has no \<open>messages[0].content\<close> (no \<open>messages\<close>
  key, \<open>messages\<close> not a list or an empty one, a first message that is not a dict or has
  no \<open>content\<close> key) makes the classifier raise: it returns no decision.
\<close>

theorem is_message_blocked_fails_fast:
  assumes "d \<noteq> []"
    and "\<not> (\<exists>m rest c. map_of d ''messages'' = Some (JList (JDict m # rest)) \<and> map_of m ''content'' = Some c)"
  shows "\<exists>ex. is_message_blocked (JDict d) = Inl ex"
proof -
  from assms(2) obtain ex where "response_content (JDict d) = Inl ex"
    using response_content_lacking by blast
  then show ?thesis by (simp add: is_message_blocked_def)
qed

text \<open>The three legacy shapes (\<open>choices\<close>, \<open>response\<close>, \<open>content\<close> at the top level) and an
  empty \<open>messages\<close> list.\<close>

theorem is_message_blocked_fails_fast_witness:
  "(\<exists>ex. is_message_blocked
      (JDict [(''choices'', JList [JDict [(''message'', JDict [(''content'', JStr ''ok'')])]])]) = Inl ex) \<and>
   (\<exists>ex. is_message_blocked (JDict [(''response'', JStr ''ok'')]) = Inl ex) \<and>
   (\<exists>ex. is_message_blocked (JDict [(''content'', JStr ''ok'')]) = Inl ex) \<and>
   (\<exists>ex. is_message_blocked (JDict [(''messages'', JList [])]) = Inl ex)"
  using
    is_message_blocked_fails_fast
      [of "[(''choices'', JList [JDict [(''message'', JDict [(''content'', JStr ''ok'')])]])]"]
    is_message_blocked_fails_fast [of "[(''response'', JStr ''ok'')]"]
    is_message_blocked_fails_fast [of "[(''content'', JStr ''ok'')]"]
    is_message_blocked_fails_fast [of "[(''messages'', JList [])]"]
  by simp

subsection \<open>Texts without a blocking phrase\<close>

lemma strip_Cons_nonempty: "\<not> is_space c \<Longrightarrow> strip (c # s) \<noteq> []"
  by (simp add: strip_def)

text \<open>
  C7, as the code has it. When the extracted text is not empty or whitespace only
  (whitespace as \<open>str.strip\<close> has it, U+0085 and U+00A0 included) and contains none of the
  blocking phrases as a case-insensitive substring, the decision is
  \<open>(False, None, None)\<close>.
\<close>

theorem is_message_blocked_no_phrase:
  assumes "map_of d ''messages'' = Some (JList (JDict m # rest))"
    and "map_of m ''content'' = Some (JStr t)"
    and "strip t \<noteq> []"
    and "\<forall>phrase\<in>set blocking_phrases. \<not> sublist (lower phrase) (lower t)"
  shows "is_message_blocked (JDict d) = Inr (False, None, JNull)"
proof -
  have rc: "response_content (JDict d) = Inr (JStr t)"
    using assms(1,2) by (rule response_content_shape)
  have "d \<noteq> []" using assms(1) by auto
  moreover have "t \<noteq> []" using assms(3) by (auto simp: strip_def)
  moreover have "first_blocking_phrase t = None"
    using assms(4) by (simp add: first_blocking_phrase_def find_None_iff phrase_in_def)
  ultimately show ?thesis
    using rc assms(3) by (simp add: is_message_blocked_def)
qed

theorem is_message_blocked_no_phrase_witness:
  "is_message_blocked
     (JDict [(''messages'', JList [JDict [(''role'', JStr ''assistant''),
        (''content'', JStr ''Hello! How can I help you today?'')]])]) = Inr (False, None, JNull)"
proof (rule is_message_blocked_no_phrase
    [where m = "[(''role'', JStr ''assistant''), (''content'', JStr ''Hello! How can I help you today?'')]"
       and rest = "[]"])
  show "strip ''Hello! How can I help you today?'' \<noteq> []"
    by (rule strip_Cons_nonempty) (simp add: is_space_def)
  show "\<forall>phrase\<in>set blocking_phrases. \<not> sublist (lower phrase) (lower ''Hello! How can I help you today?'')"
    using first_blocking_hello
    by (simp add: first_blocking_phrase_def find_None_iff phrase_in_def)
qed simp_all

text \<open>C7 as stated fails on a text of three spaces: it contains no blocking phrase, and
  the decision is blocked, by the check for an empty reply.\<close>

theorem is_message_blocked_no_phrase_counterexample:
  "first_blocking_phrase ''   '' = None \<and>
   is_message_blocked
     (JDict [(''messages'', JList [JDict [(''role'', JStr ''assistant''), (''content'', JStr ''   '')]])]) =
     Inr (True, Some ''Empty response from guardrails'', JNull)"
proof -
  have "first_blocking_phrase ''   '' = None"
    by (simp only: first_blocking_phrase_lowered lower_eval scan_eval cong: if_weak_cong)
  moreover have "strip ''   '' = []"
    by (simp add: strip_def is_space_def)
  ultimately show ?thesis
    by (simp add: is_message_blocked_def response_content_def)
qed

text \<open>A reply of one no-break space (U+00A0) or one next-line control (U+0085) is
  whitespace only for \<open>str.strip\<close>, and is blocked as an empty reply.\<close>

lemma is_message_blocked_latin1_space:
  "is_message_blocked
     (JDict [(''messages'', JList [JDict [(''role'', JStr ''assistant''), (''content'', JStr [CHR 0xA0])]])]) =
     Inr (True, Some ''Empty response from guardrails'', JNull) \<and>
   is_message_blocked
     (JDict [(''messages'', JList [JDict [(''role'', JStr ''assistant''), (''content'', JStr [CHR 0x85])]])]) =
     Inr (True, Some ''Empty response from guardrails'', JNull)"
  by (simp add: is_message_blocked_def response_content_def strip_def is_space_def)

subsection \<open>Canonical phrases\<close>

lemma blocking_phrase_matches_itself:
  assumes "p \<in> set blocking_phrases"
  shows "\<exists>phrase. first_blocking_phrase p = Some phrase"
proof -
  have "phrase_in p p" by (simp add: phrase_in_def)
  with assms have "find (\<lambda>phrase. phrase_in phrase p) blocking_phrases \<noteq> None"
    by (auto simp: find_None_iff)
  then show ?thesis by (auto simp: first_blocking_phrase_def)
qed

lemma blocking_phrases_start:
  "list_all (\<lambda>p. \<exists>c s. p = c # s \<and> \<not> is_space c) blocking_phrases"
  by (simp add: blocking_phrases_def is_space_def)

lemma blocking_phrase_strip: "p \<in> set blocking_phrases \<Longrightarrow> strip p \<noteq> []"
  using blocking_phrases_start by (auto simp: list_all_iff strip_Cons_nonempty)

lemma extract_policy_name_no_metadata:
  assumes "map_of d ''metadata'' = None \<or>
           (\<exists>md. map_of d ''metadata'' = Some md \<and>
              contains_str ''violated_policy'' md = Inr False \<and>
              contains_str ''policy_name'' md = Inr False)"
  shows "extract_policy_name (JDict d) t = Inr (JStr (policy_of_text t))"
  using assms
proof
  assume "map_of d ''metadata'' = None"
  then have "''metadata'' \<notin> fst ` set d" by (simp add: map_of_eq_None_iff)
  then show ?thesis by (simp add: extract_policy_name_def)
next
  assume "\<exists>md. map_of d ''metadata'' = Some md \<and>
              contains_str ''violated_policy'' md = Inr False \<and>
              contains_str ''policy_name'' md = Inr False"
  then obtain md where "map_of d ''metadata'' = Some md"
    and "contains_str ''violated_policy'' md = Inr False"
    and "contains_str ''policy_name'' md = Inr False"
    by blast
  then have "metadata_policy (JDict d) = Inr None"
    by (simp add: metadata_policy_def)
  then show ?thesis
    by (simp add: extract_policy_name_def split: bool.splits)
qed

text \<open>
  C1, as the code has it. The extracted text equals a phrase of \<open>policy_mapping\<close> that
  \<open>blocking_phrases\<close> lists too, and the response has no \<open>metadata\<close>, or a \<open>metadata\<close> in
  which Python's \<open>in\<close> finds neither \<open>violated_policy\<close> nor \<open>policy_name\<close>: a dict without
  these keys, a list without these elements, a string without these substrings. Then the
  decision is blocked with the policy name the table maps the phrase to. (A \<open>metadata\<close>
  that \<open>in\<close> cannot test, such as \<open>null\<close> or a number, is not among these: there the code
  raises, see \<open>is_message_blocked_metadata_null\<close>.)
\<close>

theorem is_message_blocked_canonical_phrase:
  assumes "(p, n) \<in> set policy_mapping" and "p \<in> set blocking_phrases"
    and "map_of d ''messages'' = Some (JList (JDict m # rest))"
    and "map_of m ''content'' = Some (JStr p)"
    and "map_of d ''metadata'' = None \<or>
         (\<exists>md. map_of d ''metadata'' = Some md \<and>
            contains_str ''violated_policy'' md = Inr False \<and>
            contains_str ''policy_name'' md = Inr False)"
  shows "\<exists>phrase. is_message_blocked (JDict d) =
           Inr (True, Some (''Blocking phrase detected: '' @ phrase), JStr n)"
proof -
  have rc: "response_content (JDict d) = Inr (JStr p)"
    using assms(3,4) by (rule response_content_shape)
  have d: "d \<noteq> []" using assms(3) by auto
  have st: "strip p \<noteq> []" using assms(2) by (rule blocking_phrase_strip)
  then have p: "p \<noteq> []" by (auto simp: strip_def)
  obtain phrase where ph: "first_blocking_phrase p = Some phrase"
    using blocking_phrase_matches_itself[OF assms(2)] by blast
  have "extract_policy_name (JDict d) p = Inr (JStr n)"
    using extract_policy_name_no_metadata[OF assms(5)] policy_of_text_key[OF assms(1)] by simp
  with rc d st p ph show ?thesis
    by (simp add: is_message_blocked_def)
qed

text \<open>The example of the specification, without metadata, with an empty list as metadata
  and with a metadata dict that names no policy.\<close>

theorem is_message_blocked_canonical_phrase_witness:
  "(\<exists>phrase. is_message_blocked
     (JDict [(''messages'', JList [JDict [(''role'', JStr ''assistant''),
        (''content'', JStr ''I can't assist with attempts to bypass safety or moderation rules. Please ask a different question.'')]])]) =
     Inr (True, Some (''Blocking phrase detected: '' @ phrase), JStr ''Safety Bypass Prevention'')) \<and>
   (\<exists>phrase. is_message_blocked
     (JDict [(''messages'', JList [JDict [(''role'', JStr ''assistant''),
        (''content'', JStr ''I can't assist with attempts to bypass safety or moderation rules. Please ask a different question.'')]]),
             (''metadata'', JList [])]) =
     Inr (True, Some (''Blocking phrase detected: '' @ phrase), JStr ''Safety Bypass Prevention'')) \<and>
   (\<exists>phrase. is_message_blocked
     (JDict [(''messages'', JList [JDict [(''role'', JStr ''assistant''),
        (''content'', JStr ''I can't assist with attempts to bypass safety or moderation rules. Please ask a different question.'')]]),
             (''metadata'', JDict [(''model'', JStr ''rails'')])]) =
     Inr (True, Some (''Blocking phrase detected: '' @ phrase), JStr ''Safety Bypass Prevention''))"
proof (intro conjI)
  let ?m = "[(''role'', JStr ''assistant''),
           (''content'', JStr ''I can't assist with attempts to bypass safety or moderation rules. Please ask a different question.'')]"
  show "\<exists>phrase. is_message_blocked (JDict [(''messages'', JList [JDict ?m])]) =
     Inr (True, Some (''Blocking phrase detected: '' @ phrase), JStr ''Safety Bypass Prevention'')"
    by (rule is_message_blocked_canonical_phrase [where m = ?m and rest = "[]"])
       (simp_all add: policy_mapping_def blocking_phrases_def)
  show "\<exists>phrase. is_message_blocked
       (JDict [(''messages'', JList [JDict ?m]), (''metadata'', JList [])]) =
     Inr (True, Some (''Blocking phrase detected: '' @ phrase), JStr ''Safety Bypass Prevention'')"
    by (rule is_message_blocked_canonical_phrase [where m = ?m and rest = "[]"])
       (simp_all add: policy_mapping_def blocking_phrases_def)
  show "\<exists>phrase. is_message_blocked
       (JDict [(''messages'', JList [JDict ?m]), (''metadata'', JDict [(''model'', JStr ''rails'')])]) =
     Inr (True, Some (''Blocking phrase detected: '' @ phrase), JStr ''Safety Bypass Prevention'')"
    by (rule is_message_blocked_canonical_phrase [where m = ?m and rest = "[]"])
       (simp_all add: policy_mapping_def blocking_phrases_def)
qed

text \<open>With \<open>"metadata": null\<close> the test \<open>"violated_policy" in metadata\<close> raises \<open>TypeError\<close>,
  and the classifier returns no decision.\<close>

lemma is_message_blocked_metadata_null:
  "is_message_blocked
     (JDict [(''messages'', JList [JDict [(''role'', JStr ''assistant''),
        (''content'', JStr ''I can't assist with attempts to bypass safety or moderation rules. Please ask a different question.'')]]),
             (''metadata'', JNull)]) = Inl TypeError"
proof -
  have "strip ''I can't assist with attempts to bypass safety or moderation rules. Please ask a different question.'' \<noteq> []"
    by (rule strip_Cons_nonempty) (simp add: is_space_def)
  then show ?thesis
    by (simp add: is_message_blocked_def response_content_def extract_policy_name_def
        metadata_policy_def first_blocking_bypass)
qed

text \<open>C1 as stated fails twice: a \<open>violated_policy\<close> in the metadata of the response takes
  precedence over the table, and the table's phrase for \<open>Toxicity Prevention\<close> is blocked
  by no phrase of \<open>blocking_phrases\<close>, which holds a longer form of it.\<close>

theorem is_message_blocked_canonical_phrase_counterexample:
  "is_message_blocked
     (JDict [(''messages'', JList [JDict [(''role'', JStr ''assistant''),
        (''content'', JStr ''I can't assist with attempts to bypass safety or moderation rules. Please ask a different question.'')]]),
             (''metadata'', JDict [(''violated_policy'', JStr ''custom-rule-7'')])]) =
     Inr (True, Some ''Blocking phrase detected: I can't assist with attempts to bypass safety or moderation rules. Please ask a different question.'',
          JStr ''custom-rule-7'') \<and>
   map_of policy_mapping ''I can't assist with attempts to bypass safety or moderation rules. Please ask a different question.'' =
     Some ''Safety Bypass Prevention'' \<and>
   is_message_blocked
     (JDict [(''messages'', JList [JDict [(''role'', JStr ''assistant''),
        (''content'', JStr ''I'm here to have respectful conversations. Let's keep things constructive.'')]])]) =
     Inr (False, None, JNull) \<and>
   map_of policy_mapping ''I'm here to have respectful conversations. Let's keep things constructive.'' =
     Some ''Toxicity Prevention''"
proof -
  have s1: "strip ''I can't assist with attempts to bypass safety or moderation rules. Please ask a different question.'' \<noteq> []"
    by (rule strip_Cons_nonempty) (simp add: is_space_def)
  have s2: "strip ''I'm here to have respectful conversations. Let's keep things constructive.'' \<noteq> []"
    by (rule strip_Cons_nonempty) (simp add: is_space_def)
  show ?thesis
    by (simp add: is_message_blocked_def response_content_def extract_policy_name_def
        metadata_policy_def first_blocking_bypass first_blocking_respectful s1 s2 policy_mapping_def)
qed

section \<open>Configuration resolver\<close>

lemma get_config_id_fetch_fails:
  assumes "\<not> truthy (config_id s)" and "configs_cache s = JNull" and "get_configs e = Inl ex"
  shows "get_config_id e s = (Inl ex, s\<lparr>http_calls := http_calls s @ [GetConfigs]\<rparr>)"
  using assms by (simp add: get_config_id_def fetch_configs_def)

lemma get_config_id_refetch:
  assumes "\<not> truthy (config_id s)" and "configs_cache s = JNull"
  shows "http_calls (snd (get_config_id e' s)) = http_calls s @ [GetConfigs]"
  using assms
  by (auto simp: get_config_id_def fetch_configs_def Let_def split: sum.splits prod.splits)

lemma get_config_id_empty_list:
  assumes "\<not> truthy (config_id s)" and "configs_cache s = JNull" and "get_configs e = Inr (JList [])"
  shows "get_config_id e s =
    (Inl (ValueError ''No NeMo Guardrails configurations available''),
     s\<lparr>http_calls := http_calls s @ [GetConfigs], configs_cache := JList []\<rparr>)"
  using assms by (simp add: get_config_id_def fetch_configs_def first_config_id_def)

lemma get_config_id_cached_empty:
  assumes "\<not> truthy (config_id s)" and "configs_cache s = JList []"
  shows "get_config_id e' s = (Inl (ValueError ''No NeMo Guardrails configurations available''), s)"
  using assms by (simp add: get_config_id_def first_config_id_def)

text \<open>
  C5, as the code has it, for a guardrail with no configured id and an empty cache. When
  the fetch raises, \<open>_get_config_id\<close> raises the same exception and the cache stays empty,
  so the next call fetches again. When the fetch returns an empty list, \<open>_get_config_id\<close>
  raises \<open>ValueError\<close> and the empty list stays in the cache; the next call raises the
  same error without a request.
\<close>

theorem get_config_id_failure_cache:
  assumes "\<not> truthy (config_id s)" and "configs_cache s = JNull"
  shows "(get_configs e = Inl ex \<longrightarrow>
            (\<exists>s1. get_config_id e s = (Inl ex, s1) \<and> configs_cache s1 = JNull \<and>
               http_calls s1 = http_calls s @ [GetConfigs] \<and>
               http_calls (snd (get_config_id e' s1)) = http_calls s1 @ [GetConfigs])) \<and>
         (get_configs e = Inr (JList []) \<longrightarrow>
            (\<exists>s1. get_config_id e s =
                 (Inl (ValueError ''No NeMo Guardrails configurations available''), s1) \<and>
               configs_cache s1 = JList [] \<and>
               http_calls s1 = http_calls s @ [GetConfigs] \<and>
               get_config_id e' s1 =
                 (Inl (ValueError ''No NeMo Guardrails configurations available''), s1)))"
proof (intro conjI impI)
  assume f: "get_configs e = Inl ex"
  let ?s1 = "s\<lparr>http_calls := http_calls s @ [GetConfigs]\<rparr>"
  have "get_config_id e s = (Inl ex, ?s1)"
    using assms f by (rule get_config_id_fetch_fails)
  moreover have "http_calls (snd (get_config_id e' ?s1)) = http_calls ?s1 @ [GetConfigs]"
    using assms by (intro get_config_id_refetch) simp_all
  ultimately show "\<exists>s1. get_config_id e s = (Inl ex, s1) \<and> configs_cache s1 = JNull \<and>
               http_calls s1 = http_calls s @ [GetConfigs] \<and>
               http_calls (snd (get_config_id e' s1)) = http_calls s1 @ [GetConfigs]"
    using assms by (intro exI[of _ ?s1]) simp
next
  assume f: "get_configs e = Inr (JList [])"
  let ?s1 = "s\<lparr>http_calls := http_calls s @ [GetConfigs], configs_cache := JList []\<rparr>"
  have "get_config_id e s = (Inl (ValueError ''No NeMo Guardrails configurations available''), ?s1)"
    using assms f by (rule get_config_id_empty_list)
  moreover have "get_config_id e' ?s1 =
      (Inl (ValueError ''No NeMo Guardrails configurations available''), ?s1)"
    using assms by (intro get_config_id_cached_empty) simp_all
  ultimately show "\<exists>s1. get_config_id e s =
                 (Inl (ValueError ''No NeMo Guardrails configurations available''), s1) \<and>
               configs_cache s1 = JList [] \<and>
               http_calls s1 = http_calls s @ [GetConfigs] \<and>
               get_config_id e' s1 =
                 (Inl (ValueError ''No NeMo Guardrails configurations available''), s1)"
    by (intro exI[of _ ?s1]) simp
qed

theorem get_config_id_failure_cache_witness:
  "(\<exists>s1. get_config_id (example_env (Inl ConnectionError) (Inl Timeout)) example_state =
            (Inl ConnectionError, s1) \<and>
          configs_cache s1 = JNull \<and> http_calls s1 = [GetConfigs] \<and>
          http_calls (snd (get_config_id (example_env (Inr example_configs) (Inl Timeout)) s1)) =
            [GetConfigs, GetConfigs]) \<and>
   (\<exists>s1. get_config_id (example_env (Inr (JList [])) (Inl Timeout)) example_state =
            (Inl (ValueError ''No NeMo Guardrails configurations available''), s1) \<and>
          configs_cache s1 = JList [] \<and> http_calls s1 = [GetConfigs] \<and>
          get_config_id (example_env (Inr example_configs) (Inl Timeout)) s1 =
            (Inl (ValueError ''No NeMo Guardrails configurations available''), s1))"
proof -
  have s: "\<not> truthy (config_id example_state)" "configs_cache example_state = JNull"
    "http_calls example_state = []"
    by (simp_all add: example_state_def)
  have 1: "get_configs (example_env (Inl ConnectionError) (Inl Timeout)) = Inl ConnectionError"
    and 2: "get_configs (example_env (Inr (JList [])) (Inl Timeout)) = Inr (JList [])"
    by (simp_all add: example_env_def)
  show ?thesis
    using
      get_config_id_failure_cache [OF s(1,2),
        of "example_env (Inl ConnectionError) (Inl Timeout)" ConnectionError
           "example_env (Inr example_configs) (Inl Timeout)"]
      get_config_id_failure_cache [OF s(1,2),
        of "example_env (Inr (JList [])) (Inl Timeout)" ConnectionError
           "example_env (Inr example_configs) (Inl Timeout)"]
    unfolding s(3) by (auto simp: 1 2)
qed

text \<open>C5 as stated fails when the fetch returns an empty list: the cache holds the list,
  and the next call issues no request, even with a service that has a configuration by
  then.\<close>

theorem get_config_id_failure_cache_counterexample:
  "get_config_id (example_env (Inr (JList [])) (Inl Timeout)) example_state =
     (Inl (ValueError ''No NeMo Guardrails configurations available''),
      example_state\<lparr>http_calls := [GetConfigs], configs_cache := JList []\<rparr>) \<and>
   get_config_id (example_env (Inr example_configs) (Inl Timeout))
       (example_state\<lparr>http_calls := [GetConfigs], configs_cache := JList []\<rparr>) =
     (Inl (ValueError ''No NeMo Guardrails configurations available''),
      example_state\<lparr>http_calls := [GetConfigs], configs_cache := JList []\<rparr>)"
  by (simp add: get_config_id_def fetch_configs_def first_config_id_def example_env_def
      example_state_def)

section \<open>Hook pipeline\<close>

subsection \<open>Pre-call: fail-open\<close>

lemma transport_not_block_signal:
  "ex \<in> {Timeout, ConnectionError, HTTPError} \<Longrightarrow>
   \<not> sublist ''GuardrailRaisedException'' (type_str ex)"
  by (auto simp: sublist_Cons_right)

lemma log_error_result:
  "log_guardrail_result s ''error'' r JNull JNull JNull =
     Inr (s\<lparr>logged := logged s @
       [\<lparr>log_guardrail_name = guardrail_name s, status = ''error'', reason = r,
         violated_policy = None, user_message_preview = None, llm_response_preview = None\<rparr>]\<rparr>)"
  by (simp add: log_guardrail_result_def preview_def)

text \<open>
  C2. When the pre-call hook reaches the classification call (both gates open, a truthy
  last user message) and this call raises \<open>Timeout\<close>, \<open>ConnectionError\<close> or \<open>HTTPError\<close>, the
  hook returns \<open>None\<close>, raises nothing, and logs one result, of status \<open>error\<close>.
\<close>

theorem pre_call_fails_open:
  assumes "should_run_guardrail e pre_call" and "should_proceed_based_on_metadata e"
    and "map_of data ''messages'' = Some messages" and "truthy messages"
    and "last_user_message messages = Inr user_message" and "truthy user_message"
    and "slice_100 user_message = Inr shown"
    and "check_message_with_api e
           (JList [JDict [(''role'', JStr ''user''), (''content'', user_message)]]) s = (Inl ex, s1)"
    and "ex \<in> {Timeout, ConnectionError, HTTPError}"
  shows "async_pre_call_hook e data s =
    (Inr (), s1\<lparr>logged := logged s1 @
       [\<lparr>log_guardrail_name = guardrail_name s1, status = ''error'',
         reason = ''Error: '' @ str_of_exn e ex,
         violated_policy = None, user_message_preview = None, llm_response_preview = None\<rparr>]\<rparr>)"
proof -
  have "pre_call_try e data s = (Inl ex, s1)"
    using assms(3-8) by (simp add: pre_call_try_def)
  moreover have "\<not> sublist ''GuardrailRaisedException'' (type_str ex)"
    using assms(9) by (rule transport_not_block_signal)
  ultimately show ?thesis
    using assms(1,2) by (simp add: async_pre_call_hook_def log_error_result)
qed

theorem pre_call_fails_open_witness:
  "async_pre_call_hook (example_env (Inr example_configs) (Inl Timeout))
     [(''messages'', JList [JDict [(''role'', JStr ''user''), (''content'', JStr ''hello'')]])]
     example_state =
   (Inr (),
    example_state
      \<lparr>configs_cache := example_configs,
       http_calls := [GetConfigs, PostChatCompletions (JStr ''default'')
          (JList [JDict [(''role'', JStr ''user''), (''content'', JStr ''hello'')]])],
       logged := [\<lparr>log_guardrail_name = ''nemo_guardrails'', status = ''error'',
          reason = ''Error: <exception>'', violated_policy = None,
          user_message_preview = None, llm_response_preview = None\<rparr>]\<rparr>)"
proof -
  let ?e = "example_env (Inr example_configs) (Inl Timeout)"
  let ?s1 = "example_state
      \<lparr>configs_cache := example_configs,
       http_calls := [GetConfigs, PostChatCompletions (JStr ''default'')
          (JList [JDict [(''role'', JStr ''user''), (''content'', JStr ''hello'')]])]\<rparr>"
  have call: "check_message_with_api ?e
      (JList [JDict [(''role'', JStr ''user''), (''content'', JStr ''hello'')]]) example_state =
      (Inl Timeout, ?s1)"
    by (simp add: check_message_with_api_def get_config_id_def fetch_configs_def
        first_config_id_def example_env_def example_state_def example_configs_def)
  have "async_pre_call_hook ?e
     [(''messages'', JList [JDict [(''role'', JStr ''user''), (''content'', JStr ''hello'')]])]
     example_state =
    (Inr (), ?s1\<lparr>logged := logged ?s1 @
       [\<lparr>log_guardrail_name = guardrail_name ?s1, status = ''error'',
         reason = ''Error: '' @ str_of_exn ?e Timeout,
         violated_policy = None, user_message_preview = None, llm_response_preview = None\<rparr>]\<rparr>)"
    by (rule pre_call_fails_open [where user_message = "JStr ''hello''" and shown = "JStr ''hello''"
          and messages = "JList [JDict [(''role'', JStr ''user''), (''content'', JStr ''hello'')]]"])
       (simp_all add: call, simp_all add: example_env_def)
  then show ?thesis
    by (simp add: example_env_def example_state_def)
qed

subsection \<open>Pre-call: nothing to check\<close>

lemma scan_user_message_skip:
  assumes "\<forall>x\<in>set xs. \<exists>a. x = JDict a \<and> map_of a ''role'' \<noteq> Some (JStr ''user'')"
    and "map_of m ''role'' = Some (JStr ''user'')"
  shows "scan_user_message (xs @ JDict m # ys) = dict_get (JDict m) ''content'' (JStr [])"
  using assms(1)
proof (induction xs)
  case Nil
  show ?case using assms(2) by simp
next
  case (Cons x xs)
  then obtain a where a: "x = JDict a" "map_of a ''role'' \<noteq> Some (JStr ''user'')" by auto
  have "scan_user_message (x # xs @ JDict m # ys) = scan_user_message (xs @ JDict m # ys)"
    using a by (cases "map_of a ''role''") simp_all
  with Cons show ?case by simp
qed

text \<open>
  C10. When the message list is empty, or the last message of role \<open>user\<close> has no content
  or a falsy one, the pre-call hook returns \<open>None\<close> and leaves the state as it was: no
  request, no log, no header entry. Earlier user messages are not looked at.
\<close>

theorem pre_call_skips_empty_user_message:
  assumes "map_of data ''messages'' = Some (JList messages)"
    and "messages = [] \<or>
         (\<exists>before m after. messages = before @ JDict m # after \<and>
            map_of m ''role'' = Some (JStr ''user'') \<and>
            (\<forall>x\<in>set after. \<exists>a. x = JDict a \<and> map_of a ''role'' \<noteq> Some (JStr ''user'')) \<and>
            (map_of m ''content'' = None \<or> (\<exists>v. map_of m ''content'' = Some v \<and> \<not> truthy v)))"
  shows "async_pre_call_hook e data s = (Inr (), s)"
proof -
  have "pre_call_try e data s = (Inr (), s)"
    using assms(2)
  proof
    assume "messages = []"
    with assms(1) show ?thesis by (simp add: pre_call_try_def)
  next
    assume "\<exists>before m after. messages = before @ JDict m # after \<and>
            map_of m ''role'' = Some (JStr ''user'') \<and>
            (\<forall>x\<in>set after. \<exists>a. x = JDict a \<and> map_of a ''role'' \<noteq> Some (JStr ''user'')) \<and>
            (map_of m ''content'' = None \<or> (\<exists>v. map_of m ''content'' = Some v \<and> \<not> truthy v))"
    then obtain before m after where ms: "messages = before @ JDict m # after"
      and role: "map_of m ''role'' = Some (JStr ''user'')"
      and later: "\<forall>x\<in>set after. \<exists>a. x = JDict a \<and> map_of a ''role'' \<noteq> Some (JStr ''user'')"
      and empty: "map_of m ''content'' = None \<or> (\<exists>v. map_of m ''content'' = Some v \<and> \<not> truthy v)"
      by blast
    have "rev messages = rev after @ JDict m # rev before"
      using ms by simp
    moreover have "\<forall>x\<in>set (rev after). \<exists>a. x = JDict a \<and> map_of a ''role'' \<noteq> Some (JStr ''user'')"
      using later by simp
    ultimately have "last_user_message (JList messages) = dict_get (JDict m) ''content'' (JStr [])"
      using role by (simp add: scan_user_message_skip)
    then obtain v where "last_user_message (JList messages) = Inr v" "\<not> truthy v"
      using empty by auto
    with assms(1) show ?thesis by (simp add: pre_call_try_def)
  qed
  then show ?thesis by (simp add: async_pre_call_hook_def)
qed

theorem pre_call_skips_empty_user_message_witness:
  "async_pre_call_hook (example_env (Inr example_configs) (Inl Timeout))
     [(''messages'', JList
        [JDict [(''role'', JStr ''user''), (''content'', JStr ''an earlier question'')],
         JDict [(''role'', JStr ''assistant''), (''content'', JStr ''an answer'')],
         JDict [(''role'', JStr ''user''), (''content'', JStr [])],
         JDict [(''role'', JStr ''system''), (''content'', JStr ''a note'')]])]
     example_state = (Inr (), example_state) \<and>
   async_pre_call_hook (example_env (Inr example_configs) (Inl Timeout))
     [(''messages'', JList [])] example_state = (Inr (), example_state)"
proof
  show "async_pre_call_hook (example_env (Inr example_configs) (Inl Timeout))
     [(''messages'', JList
        [JDict [(''role'', JStr ''user''), (''content'', JStr ''an earlier question'')],
         JDict [(''role'', JStr ''assistant''), (''content'', JStr ''an answer'')],
         JDict [(''role'', JStr ''user''), (''content'', JStr [])],
         JDict [(''role'', JStr ''system''), (''content'', JStr ''a note'')]])]
     example_state = (Inr (), example_state)"
  proof (rule pre_call_skips_empty_user_message)
    show "[JDict [(''role'', JStr ''user''), (''content'', JStr ''an earlier question'')],
         JDict [(''role'', JStr ''assistant''), (''content'', JStr ''an answer'')],
         JDict [(''role'', JStr ''user''), (''content'', JStr [])],
         JDict [(''role'', JStr ''system''), (''content'', JStr ''a note'')]] = [] \<or>
      (\<exists>before m after.
         [JDict [(''role'', JStr ''user''), (''content'', JStr ''an earlier question'')],
         JDict [(''role'', JStr ''assistant''), (''content'', JStr ''an answer'')],
         JDict [(''role'', JStr ''user''), (''content'', JStr [])],
         JDict [(''role'', JStr ''system''), (''content'', JStr ''a note'')]] = before @ JDict m # after \<and>
         map_of m ''role'' = Some (JStr ''user'') \<and>
         (\<forall>x\<in>set after. \<exists>a. x = JDict a \<and> map_of a ''role'' \<noteq> Some (JStr ''user'')) \<and>
         (map_of m ''content'' = None \<or> (\<exists>v. map_of m ''content'' = Some v \<and> \<not> truthy v)))"
      by (intro disjI2
          exI[of _ "[JDict [(''role'', JStr ''user''), (''content'', JStr ''an earlier question'')],
                     JDict [(''role'', JStr ''assistant''), (''content'', JStr ''an answer'')]]"]
          exI[of _ "[(''role'', JStr ''user''), (''content'', JStr [])]"]
          exI[of _ "[JDict [(''role'', JStr ''system''), (''content'', JStr ''a note'')]]"])
        simp
  qed simp
  show "async_pre_call_hook (example_env (Inr example_configs) (Inl Timeout))
     [(''messages'', JList [])] example_state = (Inr (), example_state)"
    by (rule pre_call_skips_empty_user_message [where messages = "[]"]) simp_all
qed

subsection \<open>Post-call: rewriting a blocked response\<close>



section \<open>Local detectors\<close>

subsection \<open>violates\_policy\<close>

lemma lower_char_not_upper:
  "\<not> (65 \<le> (of_char (lower_char c) :: nat) \<and> (of_char (lower_char c) :: nat) \<le> 90)"
  by (auto simp: lower_char_def Let_def)

lemma upper_notin_lower:
  assumes "65 \<le> (of_char u :: nat)" and "(of_char u :: nat) \<le> 90"
  shows "u \<notin> set (lower m)"
proof
  assume "u \<in> set (lower m)"
  then obtain c where "u = lower_char c" by (auto simp: lower_def)
  with assms lower_char_not_upper[of c] show False by simp
qed

lemma re_search_Lit_first: "re_search (Lit (u # l) # rs) s \<Longrightarrow> u \<in> set s"
  by (induction s) auto

lemma violations_need_upper:
  assumes "list_ex (\<lambda>pattern. re_search pattern s) violations"
  shows "\<exists>u\<in>set s. 65 \<le> (of_char u :: nat) \<and> (of_char u :: nat) \<le> 90"
proof -
  from assms consider
      "re_search [Lit ''I can help you '', Alt [''hack'', ''steal'', ''break into'']] s"
    | "re_search [Lit ''Here's how to '', Alt [''hurt'', ''harm'', ''attack'']] s"
    | "re_search [Lit ''To bypass security''] s"
    | "re_search [Lit ''Step '', Digits, Lit '': '', Alt [''hack'', ''exploit'', ''steal'']] s"
    by (auto simp: violations_def)
  then show ?thesis
  proof cases
    case 1
    then have "CHR ''I'' \<in> set s" by (rule re_search_Lit_first)
    then show ?thesis by (intro bexI[of _ "CHR ''I''"]) simp_all
  next
    case 2
    then have "CHR ''H'' \<in> set s" by (rule re_search_Lit_first)
    then show ?thesis by (intro bexI[of _ "CHR ''H''"]) simp_all
  next
    case 3
    then have "CHR ''T'' \<in> set s" by (rule re_search_Lit_first)
    then show ?thesis by (intro bexI[of _ "CHR ''T''"]) simp_all
  next
    case 4
    then have "CHR ''S'' \<in> set s" by (rule re_search_Lit_first)
    then show ?thesis by (intro bexI[of _ "CHR ''S''"]) simp_all
  qed
qed

lemma violations_never_match_lower:
  "\<not> list_ex (\<lambda>pattern. re_search pattern (lower m)) violations"
  using violations_need_upper[of "lower m"] upper_notin_lower[of _ m] by blast

lemma violates_policy_not_True: "violates_policy context \<noteq> Inr True"
  by (auto simp: violates_policy_def Let_def violations_never_match_lower
      split: option.splits json.splits)

lemma re_search_attack:
  "re_search [Lit ''Here's how to '', Alt [''hurt'', ''harm'', ''attack'']]
     ''Here's how to attack the server''"
  by simp

text \<open>
  C8. The claim: \<open>violates_policy\<close> returns true for a bot message that matches its
  patterns. The code does not: every pattern starts with a capital letter and is searched,
  case-sensitively, in the lowered message, so no pattern ever matches and the detector
  never returns true. \<open>Here's how to attack the server\<close> matches the second pattern and
  yields false; so does the example of the claim.
\<close>

theorem violates_policy_misses_its_patterns:
  "(\<forall>context. violates_policy context \<noteq> Inr True) \<and>
   re_search (violations ! 1) ''Here's how to attack the server'' \<and>
   violates_policy (Some [(''bot_message'', JStr ''Here's how to attack the server'')]) = Inr False \<and>
   violates_policy (Some [(''bot_message'', JStr ''here's how to hack'')]) = Inr False"
proof -
  have 1: "violates_policy (Some [(''bot_message'', JStr ''Here's how to attack the server'')]) = Inr False"
    by (simp add: violates_policy_def bot_message_of_def violations_never_match_lower)
  have 2: "violates_policy (Some [(''bot_message'', JStr ''here's how to hack'')]) = Inr False"
    by (simp add: violates_policy_def bot_message_of_def violations_never_match_lower)
  have 3: "re_search (violations ! 1) ''Here's how to attack the server''"
    using re_search_attack by (simp add: violations_def)
  show ?thesis using violates_policy_not_True 1 2 3 by blast
qed

subsection \<open>is\_harmful\_content\<close>

lemma keyword_in_pattern:
  "p \<in> set (instruction_patterns k) \<Longrightarrow> sublist k p"
  by (auto simp: instruction_patterns_def sublist_Cons_right)

lemma harmful_in_iff:
  "harmful_in l \<longleftrightarrow> (\<exists>k\<in>set harmful_keywords. \<exists>p\<in>set (instruction_patterns k). sublist p l)"
proof -
  have "sublist k l" if "p \<in> set (instruction_patterns k)" "sublist p l" for k p
    using keyword_in_pattern[OF that(1)] that(2) by (rule sublist_order.order_trans)
  then show ?thesis
    by (auto simp: harmful_in_def list_ex_iff)
qed

lemma instruction_patterns_iff:
  "(\<exists>p\<in>set (instruction_patterns k). sublist p l) \<longleftrightarrow>
     sublist (''how to '' @ k) l \<or> sublist (''ways to '' @ k) l \<or>
     sublist (''steps to '' @ k) l \<or> sublist (''to '' @ k @ '' someone'') l \<or>
     sublist (k @ '' by'') l"
  by (simp add: instruction_patterns_def del: append.simps)

lemma harmful_in_templates:
  "harmful_in l \<longleftrightarrow>
     (\<exists>k\<in>set
        [''violence'', ''violent'', ''attack'', ''hurt'', ''harm'', ''kill'', ''murder'',
         ''suicide'', ''self-harm'', ''cutting'',
         ''illegal'', ''crime'', ''criminal'',
         ''hack'', ''exploit'', ''malware'', ''virus'',
         ''drug'', ''cocaine'', ''heroin'', ''meth'',
         ''weapon'', ''bomb'', ''explosive'',
         ''discriminate'', ''racist'', ''sexist''].
      sublist (''how to '' @ k) l \<or>
      sublist (''ways to '' @ k) l \<or>
      sublist (''steps to '' @ k) l \<or>
      sublist (''to '' @ k @ '' someone'') l \<or>
      sublist (k @ '' by'') l)"
  unfolding harmful_in_iff instruction_patterns_iff harmful_keywords_def ..

text \<open>
  C9. For a bot message that is a non-empty string, \<open>is_harmful_content\<close> is true exactly
  when, in the lowered message, one of the 27 keywords stands in one of the five
  instruction templates: \<open>how to k\<close>, \<open>ways to k\<close>, \<open>steps to k\<close>, \<open>to k someone\<close>, \<open>k by\<close>.
  A keyword in none of them yields false, a keyword in one of them yields true.
\<close>

theorem is_harmful_content_needs_template:
  assumes "map_of ctx ''bot_message'' = Some (JStr m)" and "m \<noteq> []"
  shows "is_harmful_content (Some ctx) =
    Inr (\<exists>k\<in>set
        [''violence'', ''violent'', ''attack'', ''hurt'', ''harm'', ''kill'', ''murder'',
         ''suicide'', ''self-harm'', ''cutting'',
         ''illegal'', ''crime'', ''criminal'',
         ''hack'', ''exploit'', ''malware'', ''virus'',
         ''drug'', ''cocaine'', ''heroin'', ''meth'',
         ''weapon'', ''bomb'', ''explosive'',
         ''discriminate'', ''racist'', ''sexist''].
      sublist (''how to '' @ k) (lower m) \<or>
      sublist (''ways to '' @ k) (lower m) \<or>
      sublist (''steps to '' @ k) (lower m) \<or>
      sublist (''to '' @ k @ '' someone'') (lower m) \<or>
      sublist (k @ '' by'') (lower m))"
proof -
  have "ctx \<noteq> []" using assms(1) by auto
  moreover have "bot_message_of ctx = JStr m"
    using assms by (simp add: bot_message_of_def)
  ultimately have "is_harmful_content (Some ctx) = Inr (harmful_in (lower m))"
    using assms(2) by (simp add: is_harmful_content_def)
  then show ?thesis
    unfolding harmful_in_templates .
qed

lemma no_space_not_harmful:
  assumes "CHR '' '' \<notin> set l"
  shows "\<not> harmful_in l"
proof
  assume "harmful_in l"
  then obtain k p where "p \<in> set (instruction_patterns k)" "sublist p l"
    unfolding harmful_in_iff by blast
  moreover from this(1) have "CHR '' '' \<in> set p" by (auto simp: instruction_patterns_def)
  ultimately show False using assms by (auto simp: sublist_def)
qed

lemma harmful_inI:
  assumes "k \<in> set harmful_keywords" and "p \<in> set (instruction_patterns k)" and "sublist p l"
  shows "harmful_in l"
  unfolding harmful_in_iff using assms by blast

text \<open>The examples of the claim, \<open>violence\<close> alone and \<open>how to kill\<close>; a keyword in a
  sentence without a template; and one message for each of the other four templates.\<close>

theorem is_harmful_content_examples:
  "is_harmful_content (Some [(''bot_message'', JStr ''violence'')]) = Inr False \<and>
   is_harmful_content (Some [(''bot_message'', JStr ''how to kill'')]) = Inr True \<and>
   is_harmful_content (Some [(''bot_message'', JStr ''The film shows violence.'')]) = Inr False \<and>
   is_harmful_content (Some [(''bot_message'', JStr ''Ways to harm'')]) = Inr True \<and>
   is_harmful_content (Some [(''bot_message'', JStr ''steps to hack'')]) = Inr True \<and>
   is_harmful_content (Some [(''bot_message'', JStr ''to hurt someone'')]) = Inr True \<and>
   is_harmful_content (Some [(''bot_message'', JStr ''Kill by'')]) = Inr True"
proof -
  have l: "lower ''violence'' = ''violence''" "lower ''how to kill'' = ''how to kill''"
    "lower ''The film shows violence.'' = ''the film shows violence.''"
    "lower ''Ways to harm'' = ''ways to harm''" "lower ''steps to hack'' = ''steps to hack''"
    "lower ''to hurt someone'' = ''to hurt someone''" "lower ''Kill by'' = ''kill by''"
    by (simp_all only: lower_eval)
  have 1: "\<not> harmful_in ''violence''"
    by (rule no_space_not_harmful) simp
  have 2: "harmful_in ''how to kill''"
    by (rule harmful_inI [of "''kill''" "''how to kill''"])
       (simp_all add: harmful_keywords_def instruction_patterns_def)
  have 3: "\<not> harmful_in ''the film shows violence.''"
    by (simp only: harmful_in_def harmful_keywords_def instruction_patterns_def
        list_ex_Nil_iff list_ex_Cons_if append.simps sublist_eval cong: if_weak_cong)
  have 4: "harmful_in ''ways to harm''"
    by (rule harmful_inI [of "''harm''" "''ways to harm''"])
       (simp_all add: harmful_keywords_def instruction_patterns_def)
  have 5: "harmful_in ''steps to hack''"
    by (rule harmful_inI [of "''hack''" "''steps to hack''"])
       (simp_all add: harmful_keywords_def instruction_patterns_def)
  have 6: "harmful_in ''to hurt someone''"
    by (rule harmful_inI [of "''hurt''" "''to hurt someone''"])
       (simp_all add: harmful_keywords_def instruction_patterns_def)
  have 7: "harmful_in ''kill by''"
    by (rule harmful_inI [of "''kill''" "''kill by''"])
       (simp_all add: harmful_keywords_def instruction_patterns_def)
  show ?thesis
    using
      is_harmful_content_needs_template [of "[(''bot_message'', JStr ''violence'')]" "''violence''"]
      is_harmful_content_needs_template [of "[(''bot_message'', JStr ''how to kill'')]" "''how to kill''"]
      is_harmful_content_needs_template
        [of "[(''bot_message'', JStr ''The film shows violence.'')]" "''The film shows violence.''"]
      is_harmful_content_needs_template [of "[(''bot_message'', JStr ''Ways to harm'')]" "''Ways to harm''"]
      is_harmful_content_needs_template [of "[(''bot_message'', JStr ''steps to hack'')]" "''steps to hack''"]
      is_harmful_content_needs_template
        [of "[(''bot_message'', JStr ''to hurt someone'')]" "''to hurt someone''"]
      is_harmful_content_needs_template [of "[(''bot_message'', JStr ''Kill by'')]" "''Kill by''"]
    unfolding harmful_in_templates [symmetric] l
    using 1 2 3 4 5 6 7 by simp
qed

end
